theory Spec2Isabelle
  imports Complex_Main
begin

text \<open>
  The transmission of libhoney-js as bundled in \<open>dist/libhoney.es.js\<close>: the validated
  event and its JSON form, the batch aggregator and its encoder, the POST of a partition
  with the outcomes it reports, the \<open>Transmission\<close> object with its queue, timer, count
  of batches and flush callback, and the bounded response queue of \<open>Libhoney\<close>.
\<close>

section \<open>JavaScript values used by the transmission\<close>

text \<open>
  The fields of an event that the transmission only tests for truthiness or passes on
  (timestamp, postData, metadata, the status and err of a server response) are JavaScript
  values. \<open>JObj\<close> is a reference to an object (a Date, a plain object): objects are
  always truthy. Numbers are exact rationals: IEEE rounding and the values NaN and
  Infinity are outside the model (an absent number, which JavaScript reads as NaN, is
  \<open>None\<close> where a field may be absent).
\<close>

datatype jsval = JUndefined | JNull | JBool bool | JNum rat | JStr string | JObj nat

fun truthy :: "jsval \<Rightarrow> bool" where
  "truthy JUndefined = False"
| "truthy JNull = False"
| "truthy (JBool b) = b"
| "truthy (JNum n) = (n \<noteq> 0)"
| "truthy (JStr s) = (s \<noteq> [])"
| "truthy (JObj r) = True"

text \<open>
  An Error object: its name, its message, and the two properties the transmission sets
  or reads on it (\<open>status\<close>, \<open>timeout\<close>).
\<close>

record jserror =
  err_name :: string
  err_message :: string
  err_status :: jsval
  err_timeout :: bool

definition Error :: "string \<Rightarrow> jserror" where
  "Error reason = \<lparr>err_name = ''Error'', err_message = reason,
                    err_status = JUndefined, err_timeout = False\<rparr>"

definition TypeError :: "string \<Rightarrow> jserror" where
  "TypeError reason = \<lparr>err_name = ''TypeError'', err_message = reason,
                        err_status = JUndefined, err_timeout = False\<rparr>"

section \<open>ValidatedEvent\<close>

text \<open>
  \<open>sampleRate\<close> is a number or absent (\<open>None\<close>); an absent number is NaN in a
  comparison or a division, and falsy in a condition. \<open>encodeError\<close> is absent until
  the encoder sets it; the values thrown by the serializer are Error objects.
\<close>

record ValidatedEvent =
  timestamp :: jsval
  apiHost :: string
  postData :: jsval
  writeKey :: string
  dataset :: string
  sampleRate :: "rat option"
  metadata :: jsval
  encodeError :: "jserror option"

definition toJSON :: "ValidatedEvent \<Rightarrow> (string \<times> jsval) list" where
  "toJSON ev =
     (let json = [];
          json = (if truthy (timestamp ev) then json @ [(''time'', timestamp ev)] else json);
          json = (case sampleRate ev of
                    None \<Rightarrow> json
                  | Some s \<Rightarrow> if s \<noteq> 0 then json @ [(''samplerate'', JNum s)] else json);
          json = (if truthy (postData ev) then json @ [(''data'', postData ev)] else json)
      in json)"

section \<open>Outcomes handed to the response callback\<close>

text \<open>
  An outcome is the object literal the transmission passes to the response callback. A
  key the literal does not have reads as \<open>JUndefined\<close> (\<open>out_status_code\<close>) or
  \<open>None\<close> (\<open>out_duration\<close>). \<open>out_error\<close> is an Error object (\<open>Inl\<close>) or a plain
  value such as the \<open>err\<close> of a server response (\<open>Inr\<close>).
\<close>

record outcome =
  out_status_code :: jsval
  out_duration :: "int option"
  out_metadata :: jsval
  out_error :: "jserror + jsval"

section \<open>Transmission: constants, options, state\<close>

definition USER_AGENT :: string where
  "USER_AGENT = ''libhoney-js/3.1.1''"

definition batchSizeTrigger :: int where
  "batchSizeTrigger = 50"

definition batchTimeTrigger :: int where
  "batchTimeTrigger = 100"

definition maxConcurrentBatches :: int where
  "maxConcurrentBatches = 10"

definition pendingWorkCapacity :: int where
  "pendingWorkCapacity = 10000"

definition deadlineTimeoutMs :: int where
  "deadlineTimeoutMs = 60000"

text \<open>
  The options object. A numeric option is \<open>Some n\<close> when \<open>typeof\<close> gives
  \<open>"number"\<close> and \<open>None\<close> otherwise; the numbers configured here are counts and
  milliseconds, modelled as integers.
\<close>

record options =
  opt_batchSizeTrigger :: "int option"
  opt_batchTimeTrigger :: "int option"
  opt_maxConcurrentBatches :: "int option"
  opt_pendingWorkCapacity :: "int option"
  opt_timeout :: "int option"
  opt_userAgentAddition :: "string option"

text \<open>A POST handed to \<open>fetch\<close>, with the deadline in milliseconds.\<close>

record request =
  req_url :: string
  req_method :: string
  req_headers :: "(string \<times> string) list"
  req_body :: string
  req_timeout :: int

text \<open>
  The state of a Transmission. The fields \<open>this_...\<close> are the fields \<open>this._...\<close>
  of the object (\<open>this_sendTimeoutId = None\<close> is the id \<open>-1\<close>, \<open>this_flushCallback\<close>
  holds the promise its closure resolves). The other fields are the surroundings the
  object acts on: \<open>responses\<close> lists the arrays passed to the response callback,
  \<open>timers\<close> the timers pending in the runtime, \<open>inflight\<close> the batches whose
  asynchronous send has not finished yet, \<open>requests\<close> the POSTs issued, \<open>resolved\<close>
  the flush promises resolved so far, and \<open>nextId\<close> the next fresh timer or promise
  id.
\<close>

record Transmission =
  this_batchSizeTrigger :: int
  this_batchTimeTrigger :: int
  this_maxConcurrentBatches :: int
  this_pendingWorkCapacity :: int
  this_timeout :: int
  this_sendTimeoutId :: "nat option"
  this_eventQueue :: "ValidatedEvent list"
  this_batchCount :: int
  this_userAgentAddition :: string
  this_flushCallback :: "nat option"
  responses :: "outcome list list"
  timers :: "nat list"
  inflight :: "ValidatedEvent list list"
  requests :: "request list"
  resolved :: "nat list"
  nextId :: nat

definition Transmission_constructor :: "options \<Rightarrow> Transmission" where
  "Transmission_constructor opts =
     (let this = \<lparr>this_batchSizeTrigger = batchSizeTrigger,
                   this_batchTimeTrigger = batchTimeTrigger,
                   this_maxConcurrentBatches = maxConcurrentBatches,
                   this_pendingWorkCapacity = pendingWorkCapacity,
                   this_timeout = deadlineTimeoutMs,
                   this_sendTimeoutId = None,
                   this_eventQueue = [],
                   this_batchCount = 0,
                   this_userAgentAddition = [],
                   this_flushCallback = None,
                   responses = [], timers = [], inflight = [], requests = [],
                   resolved = [], nextId = 1\<rparr>;
          this = (case opt_batchSizeTrigger opts of
                    Some b \<Rightarrow> this\<lparr>this_batchSizeTrigger := max b 1\<rparr> | None \<Rightarrow> this);
          this = (case opt_batchTimeTrigger opts of
                    Some t \<Rightarrow> this\<lparr>this_batchTimeTrigger := t\<rparr> | None \<Rightarrow> this);
          this = (case opt_maxConcurrentBatches opts of
                    Some m \<Rightarrow> this\<lparr>this_maxConcurrentBatches := m\<rparr> | None \<Rightarrow> this);
          this = (case opt_pendingWorkCapacity opts of
                    Some c \<Rightarrow> this\<lparr>this_pendingWorkCapacity := c\<rparr> | None \<Rightarrow> this);
          this = (case opt_timeout opts of
                    Some t \<Rightarrow> this\<lparr>this_timeout := t\<rparr> | None \<Rightarrow> this);
          this = (case opt_userAgentAddition opts of
                    Some a \<Rightarrow> this\<lparr>this_userAgentAddition := a\<rparr> | None \<Rightarrow> this)
      in this)"

definition droppedCallback :: "ValidatedEvent \<Rightarrow> string \<Rightarrow> Transmission \<Rightarrow> Transmission" where
  "droppedCallback ev reason this =
     this\<lparr>responses := responses this @
       [[\<lparr>out_status_code = JUndefined, out_duration = None,
          out_metadata = metadata ev, out_error = Inl (Error reason)\<rparr>]]\<rparr>"

text \<open>
  The timer. \<open>setTimeout\<close> gives a fresh id and leaves the timer pending in the
  runtime; \<open>clearTimeout\<close> removes it.
\<close>

definition ensureSendTimeout :: "Transmission \<Rightarrow> Transmission" where
  "ensureSendTimeout this =
     (if this_sendTimeoutId this = None then
        this\<lparr>this_sendTimeoutId := Some (nextId this),
             timers := timers this @ [nextId this],
             nextId := Suc (nextId this)\<rparr>
      else this)"

definition clearSendTimeout :: "Transmission \<Rightarrow> Transmission" where
  "clearSendTimeout this =
     (case this_sendTimeoutId this of
        Some t \<Rightarrow> this\<lparr>timers := removeAll t (timers this), this_sendTimeoutId := None\<rparr>
      | None \<Rightarrow> this)"

text \<open>
  \<open>sendBatch\<close> is the part of \<open>_sendBatch\<close> that runs before its first
  \<open>await\<close>: the gate on the count, the timer, the count, and the \<open>splice\<close> that
  removes the first \<open>_batchSizeTrigger\<close> events from the queue (\<open>splice(0, n)\<close>
  removes nothing for \<open>n \<le> 0\<close>). The batch removed waits in \<open>inflight\<close> for the
  asynchronous part.
\<close>

definition sendBatch :: "Transmission \<Rightarrow> Transmission" where
  "sendBatch this =
     (if this_batchCount this = maxConcurrentBatches then this
      else
        (let this = clearSendTimeout this;
             this = this\<lparr>this_batchCount := this_batchCount this + 1\<rparr>;
             n = nat (this_batchSizeTrigger this);
             batch = take n (this_eventQueue this)
         in this\<lparr>this_eventQueue := drop n (this_eventQueue this),
                 inflight := inflight this @ [batch]\<rparr>))"

text \<open>
  \<open>_shouldSendEvent\<close>, with r the value the random function returns. An absent
  sampleRate is NaN in \<open>sampleRate <= 1\<close> and in \<open>1 / sampleRate\<close>, so both
  comparisons are false. The division is reached for \<open>s > 1\<close> only.
\<close>

definition shouldSendEvent :: "rat \<Rightarrow> ValidatedEvent \<Rightarrow> bool" where
  "shouldSendEvent r ev =
     (case sampleRate ev of
        None \<Rightarrow> False
      | Some s \<Rightarrow> if s \<le> 1 then True else r < 1 / s)"

definition sendPresampledEvent :: "ValidatedEvent \<Rightarrow> Transmission \<Rightarrow> Transmission" where
  "sendPresampledEvent ev this =
     (if int (length (this_eventQueue this)) \<ge> this_pendingWorkCapacity this then
        droppedCallback ev ''queue overflow'' this
      else
        (let this = this\<lparr>this_eventQueue := this_eventQueue this @ [ev]\<rparr>
         in if int (length (this_eventQueue this)) \<ge> this_batchSizeTrigger this
            then sendBatch this
            else ensureSendTimeout this))"

definition sendEvent :: "rat \<Rightarrow> ValidatedEvent \<Rightarrow> Transmission \<Rightarrow> Transmission" where
  "sendEvent r ev this =
     (if \<not> shouldSendEvent r ev then
        droppedCallback ev ''event dropped due to sampling'' this
      else sendPresampledEvent ev this)"

text \<open>
  \<open>flush\<close> gives a promise that is already resolved, or a pending promise whose
  resolving closure it stores in \<open>flushCallback\<close>.
\<close>

datatype promise = Resolved | Pending nat

definition flush :: "Transmission \<Rightarrow> promise \<times> Transmission" where
  "flush this =
     (if length (this_eventQueue this) = 0 \<and> this_batchCount this = 0 then
        (Resolved, this)
      else
        (Pending (nextId this),
         this\<lparr>this_flushCallback := Some (nextId this), nextId := Suc (nextId this)\<rparr>))"

text \<open>
  \<open>finishBatch\<close>, which the asynchronous part of \<open>_sendBatch\<close> runs last (in its
  \<open>finally\<close>). Calling the flush callback clears the field and resolves its promise.
\<close>

definition finishBatch :: "Transmission \<Rightarrow> Transmission" where
  "finishBatch this0 =
     (let this = this0\<lparr>this_batchCount := this_batchCount this0 - 1\<rparr>;
          queueLength = int (length (this_eventQueue this))
      in if queueLength > 0 then
           (if queueLength \<ge> this_batchSizeTrigger this then sendBatch this
            else ensureSendTimeout this)
         else
           (case this_flushCallback this of
              Some p \<Rightarrow>
                if this_batchCount this = 0
                then this\<lparr>this_flushCallback := None, resolved := resolved this @ [p]\<rparr>
                else this
            | None \<Rightarrow> this))"

section \<open>Batches: partition, encoding, the POST of one partition\<close>

record batch =
  batch_apiHost :: string
  batch_writeKey :: string
  batch_dataset :: string
  batch_events :: "ValidatedEvent list"

text \<open>
  \<open>partition\<close> builds an object keyed by \<open>keyfn\<close>; the object is an association
  list in the order the keys were first inserted, which is the order \<open>Object.keys\<close>
  gives (a key of the aggregator holds two underscores, so it is no array index).
\<close>

definition partition_step ::
  "('a \<Rightarrow> string) \<Rightarrow> ('a \<Rightarrow> 'b) \<Rightarrow> ('b \<Rightarrow> 'a \<Rightarrow> 'b) \<Rightarrow> (string \<times> 'b) list \<Rightarrow> 'a \<Rightarrow> (string \<times> 'b) list"
  where
  "partition_step keyfn createfn addfn result v =
     (let key = keyfn v
      in case map_of result key of
           None \<Rightarrow> result @ [(key, createfn v)]
         | Some b \<Rightarrow> map (\<lambda>(k, b'). if k = key then (k, addfn b' v) else (k, b')) result)"

definition partition_arr ::
  "'a list \<Rightarrow> ('a \<Rightarrow> string) \<Rightarrow> ('a \<Rightarrow> 'b) \<Rightarrow> ('b \<Rightarrow> 'a \<Rightarrow> 'b) \<Rightarrow> (string \<times> 'b) list"
  where
  "partition_arr arr keyfn createfn addfn = foldl (partition_step keyfn createfn addfn) [] arr"

definition BatchEndpointAggregator :: "ValidatedEvent list \<Rightarrow> (string \<times> batch) list" where
  "BatchEndpointAggregator events =
     partition_arr events
       (\<lambda>ev. apiHost ev @ ''_'' @ writeKey ev @ ''_'' @ dataset ev)
       (\<lambda>ev. \<lparr>batch_apiHost = apiHost ev, batch_writeKey = writeKey ev,
               batch_dataset = dataset ev, batch_events = [ev]\<rparr>)
       (\<lambda>batch ev. batch\<lparr>batch_events := batch_events batch @ [ev]\<rparr>)"

text \<open>
  What the runtime provides: \<open>JSON_stringify\<close> serializes the object \<open>toJSON\<close> gave
  or throws (\<open>Inl\<close>); \<open>URL_href path base\<close> is \<open>new URL(path, base).href\<close> for the
  absolute URL the apiHost of a validated event is; \<open>fetch\<close> answers a request with the
  milliseconds \<open>end - start\<close> the transmission reads from the clock and with a rejection
  or a response (\<open>ok\<close>, \<open>status\<close>, and what \<open>json()\<close> gives: a rejection or the
  array of the server's per-event objects).
\<close>

record resp =
  resp_status :: jsval
  resp_err :: jsval

datatype fetch_result =
  Rejected jserror
| Response bool nat "jserror + resp list"

record env =
  JSON_stringify :: "(string \<times> jsval) list \<Rightarrow> jserror + string"
  URL_href :: "string \<Rightarrow> string \<Rightarrow> string"
  fetch :: "request \<Rightarrow> int \<times> fetch_result"

text \<open>
  \<open>encodeBatchEvents\<close>: the \<open>reduce\<close> is a \<open>foldl\<close> whose state is the string
  built so far, \<open>first\<close>, \<open>numEncoded\<close>, and the events passed, with \<open>encodeError\<close>
  set on those that threw.
\<close>

definition encodeStep ::
  "env \<Rightarrow> string \<times> bool \<times> nat \<times> ValidatedEvent list \<Rightarrow> ValidatedEvent
     \<Rightarrow> string \<times> bool \<times> nat \<times> ValidatedEvent list" where
  "encodeStep e st ev =
     (case st of (acc, first, numEncoded, passed) \<Rightarrow>
        (case JSON_stringify e (toJSON ev) of
           Inr encodedEvent \<Rightarrow>
             (acc @ (if \<not> first then '','' else []) @ encodedEvent, False,
              numEncoded + 1, passed @ [ev])
         | Inl err \<Rightarrow> (acc, first, numEncoded, passed @ [ev\<lparr>encodeError := Some err\<rparr>])))"

definition encodeBatchEvents ::
  "env \<Rightarrow> ValidatedEvent list \<Rightarrow> ValidatedEvent list \<times> string \<times> nat" where
  "encodeBatchEvents e events =
     (case foldl (encodeStep e) ([], True, 0, []) events of
        (encodedEvents, first, numEncoded, events') \<Rightarrow>
          (events', ''['' @ encodedEvents @ '']'', numEncoded))"

fun string_of_nat :: "nat \<Rightarrow> string" where
  "string_of_nat n =
     (if n < 10 then [char_of (48 + n)]
      else string_of_nat (n div 10) @ [char_of (48 + n mod 10)])"

definition is_space :: "char \<Rightarrow> bool" where
  "is_space c = (c \<in> set [CHR '' '', CHR 0x09, CHR 0x0A, CHR 0x0B, CHR 0x0C, CHR 0x0D])"

definition trim :: "string \<Rightarrow> string" where
  "trim s = rev (dropWhile is_space (rev (dropWhile is_space s)))"

text \<open>
  The build target: the bundler wrote the literal \<open>"node"\<close> where the module compares
  its target with \<open>"browser"\<close> to choose the name of the user-agent header.
\<close>

definition LIBHONEY_TARGET :: string where
  "LIBHONEY_TARGET = ''node''"

definition userAgentHeaderName :: "string \<Rightarrow> string" where
  "userAgentHeaderName target =
     (if target = ''browser'' then ''X-Honeycomb-UserAgent'' else ''User-Agent'')"

definition userAgentOf :: "Transmission \<Rightarrow> string" where
  "userAgentOf this =
     (let userAgent = USER_AGENT;
          trimmedAddition = trim (this_userAgentAddition this)
      in if trimmedAddition \<noteq> [] then USER_AGENT @ '' '' @ trimmedAddition else userAgent)"

text \<open>
  The outcomes of a 2xx response. \<open>responseData[respIdx++]\<close> past the end of the array
  is \<open>undefined\<close>, and reading its \<open>status\<close> throws a TypeError (\<open>Inl\<close>), which
  leaves the \<open>map\<close>.
\<close>

fun mapResponses ::
  "int \<Rightarrow> resp list \<Rightarrow> nat \<Rightarrow> ValidatedEvent list \<Rightarrow> jserror + outcome list" where
  "mapResponses d responseData respIdx [] = Inr []"
| "mapResponses d responseData respIdx (ev # evs) =
     (case encodeError ev of
        Some err \<Rightarrow>
          (case mapResponses d responseData respIdx evs of
             Inl t \<Rightarrow> Inl t
           | Inr outs \<Rightarrow>
               Inr (\<lparr>out_status_code = JUndefined, out_duration = Some d,
                      out_metadata = metadata ev, out_error = Inl err\<rparr> # outs))
      | None \<Rightarrow>
          if respIdx < length responseData then
            (let nextResponse = responseData ! respIdx
             in case mapResponses d responseData (respIdx + 1) evs of
                  Inl t \<Rightarrow> Inl t
                | Inr outs \<Rightarrow>
                    Inr (\<lparr>out_status_code = resp_status nextResponse, out_duration = Some d,
                           out_metadata = metadata ev,
                           out_error = Inr (resp_err nextResponse)\<rparr> # outs))
          else Inl (TypeError ''Cannot read properties of undefined''))"

text \<open>The outcomes built in the \<open>catch\<close> of the POST.\<close>

definition catchOutcomes :: "int \<Rightarrow> jserror \<Rightarrow> ValidatedEvent list \<Rightarrow> outcome list" where
  "catchOutcomes d error0 events =
     (let error = (if err_name error0 = ''AbortError''
                   then error0\<lparr>err_timeout := True\<rparr> else error0)
      in map (\<lambda>ev.
           \<lparr>out_status_code =
              (if encodeError ev \<noteq> None then JUndefined
               else if truthy (err_status error) then err_status error else JUndefined),
            out_duration = Some d,
            out_metadata = metadata ev,
            out_error = (case encodeError ev of Some err \<Rightarrow> Inl err | None \<Rightarrow> Inl error)\<rparr>)
         events)"

text \<open>
  The body of the \<open>try\<close> after the response arrived, with its \<open>catch\<close>: the
  outcomes of the one call of the response callback.
\<close>

definition responseOutcomes :: "int \<Rightarrow> fetch_result \<Rightarrow> ValidatedEvent list \<Rightarrow> outcome list" where
  "responseOutcomes d res events =
     (case res of
        Rejected error \<Rightarrow> catchOutcomes d error events
      | Response ok status json \<Rightarrow>
          if \<not> ok then
            catchOutcomes d
              ((Error (''HTTP error! status: '' @ string_of_nat status))
                 \<lparr>err_status := JNum (of_nat status)\<rparr>) events
          else
            (case json of
               Inl error \<Rightarrow> catchOutcomes d error events
             | Inr responseData \<Rightarrow>
                 (case mapResponses d responseData 0 events of
                    Inr outs \<Rightarrow> outs
                  | Inl error \<Rightarrow> catchOutcomes d error events)))"

definition batchRequest :: "Transmission \<Rightarrow> string \<Rightarrow> batch \<Rightarrow> string \<Rightarrow> request" where
  "batchRequest this url batch encoded =
     \<lparr>req_url = url, req_method = ''POST'',
      req_headers =
        [(''X-Honeycomb-Team'', batch_writeKey batch),
         (userAgentHeaderName LIBHONEY_TARGET, userAgentOf this),
         (''Content-Type'', ''application/json'')],
      req_body = encoded,
      req_timeout = this_timeout this\<rparr>"

text \<open>
  The function \<open>eachPromise\<close> runs for one partition: the arrays it passes to the
  response callback and the requests it issues.
\<close>

definition sendPartition ::
  "env \<Rightarrow> Transmission \<Rightarrow> batch \<Rightarrow> outcome list list \<times> request list" where
  "sendPartition e this batch =
     (let url = URL_href e (''/1/batch/'' @ batch_dataset batch) (batch_apiHost batch)
      in case encodeBatchEvents e (batch_events batch) of
           (events, encoded, numEncoded) \<Rightarrow>
             if numEncoded = 0 then
               ([map (\<lambda>ev. \<lparr>out_status_code = JUndefined, out_duration = None,
                             out_metadata = metadata ev,
                             out_error = (case encodeError ev of
                                            Some err \<Rightarrow> Inl err | None \<Rightarrow> Inr JUndefined)\<rparr>)
                   events], [])
             else
               (let req = batchRequest this url batch encoded
                in case fetch e req of
                     (d, res) \<Rightarrow> ([responseOutcomes d res events], [req])))"

definition processBatch ::
  "env \<Rightarrow> Transmission \<Rightarrow> ValidatedEvent list \<Rightarrow> outcome list list \<times> request list" where
  "processBatch e this events =
     foldl (\<lambda>(cbs, reqs) (k, batch).
              case sendPartition e this batch of (cbs', reqs') \<Rightarrow> (cbs @ cbs', reqs @ reqs'))
       ([], []) (BatchEndpointAggregator events)"

section \<open>The transmission as a machine\<close>

text \<open>
  The steps of a transmission: the two intakes (with the value the random function
  gives), \<open>flush\<close>, a timer of the runtime firing, and the asynchronous part of the k-th
  batch in flight running to its end in the surroundings \<open>e\<close>: its partitions are sent
  one after the other, then \<open>finishBatch\<close> runs. A timer that is not pending does not
  fire, and a batch that is not in flight does not finish.

  The asynchronous part of a batch is one step here. In the event loop other steps run
  between its awaits; they touch neither the events of the batch nor the two fields the
  asynchronous part reads (the user-agent addition and the timeout), and the asynchronous
  part changes the object in \<open>finishBatch\<close> only. So the interleaving decides no more
  than the order in which the batches add to \<open>responses\<close> and \<open>requests\<close>.
\<close>

datatype input =
  SendEvent rat ValidatedEvent
| SendPresampledEvent ValidatedEvent
| Flush
| TimerFired nat
| BatchDone nat env

definition batchDone :: "nat \<Rightarrow> env \<Rightarrow> Transmission \<Rightarrow> Transmission" where
  "batchDone k e this =
     (if k < length (inflight this) then
        (case processBatch e this (inflight this ! k) of
           (cbs, reqs) \<Rightarrow>
             finishBatch
               (this\<lparr>responses := responses this @ cbs,
                     requests := requests this @ reqs,
                     inflight := take k (inflight this) @ drop (Suc k) (inflight this)\<rparr>))
      else this)"

definition timerFired :: "nat \<Rightarrow> Transmission \<Rightarrow> Transmission" where
  "timerFired t this =
     (if t \<in> set (timers this) then sendBatch (this\<lparr>timers := removeAll t (timers this)\<rparr>)
      else this)"

fun step :: "input \<Rightarrow> Transmission \<Rightarrow> Transmission" where
  "step (SendEvent r ev) this = sendEvent r ev this"
| "step (SendPresampledEvent ev) this = sendPresampledEvent ev this"
| "step Flush this = snd (flush this)"
| "step (TimerFired t) this = timerFired t this"
| "step (BatchDone k e) this = batchDone k e this"

definition run :: "input list \<Rightarrow> Transmission \<Rightarrow> Transmission" where
  "run inputs this = foldl (\<lambda>s i. step i s) this inputs"

section \<open>The response queue of Libhoney\<close>

text \<open>
  \<open>slice(0, n)\<close> of an array is \<open>take n\<close>; the limit is a queue size, a natural
  number.
\<close>

definition concatWithMaxLimit :: "'a list \<Rightarrow> 'a list \<Rightarrow> nat \<Rightarrow> 'a list" where
  "concatWithMaxLimit arr1 arr2 limit =
     (if length arr1 \<ge> limit then take limit arr1
      else if length arr1 + length arr2 > limit then
        (let diff = limit - length arr1;
             slicedArr2 = take diff arr2
         in arr1 @ slicedArr2)
      else arr1 @ arr2)"

record 'a Libhoney =
  responseQueue :: "'a list"
  maxResponseQueueSize :: nat

definition Libhoney_responseCallback :: "'a list \<Rightarrow> 'a Libhoney \<Rightarrow> 'a Libhoney" where
  "Libhoney_responseCallback resps h =
     (let queue = responseQueue h; limit = maxResponseQueueSize h
      in h\<lparr>responseQueue := concatWithMaxLimit queue resps limit\<rparr>)"

section \<open>Functions used to state the properties\<close>






section \<open>Predicates on the machine used to state the properties\<close>

text \<open>
  \<open>drained\<close>: the queue is empty and no batch is in flight. \<open>drains i this\<close>: the step
  is the completion of a batch in flight that leaves the transmission drained.
  \<open>registers i this\<close>: the step is a \<open>flush\<close> that stores a waiter. \<open>counted\<close>: the
  count of the object is the number of batches in flight. \<open>waiters_ok\<close>: no promise is
  resolved twice, and the promise waiting in \<open>flushCallback\<close> is not resolved yet.
  \<open>lost p\<close>: the promise p was handed out, is not resolved and no longer waits in
  \<open>flushCallback\<close>. \<open>afterSend k e\<close> is the state when the k-th batch in flight has
  sent its partitions, before \<open>finishBatch\<close>.
\<close>

definition drained :: "Transmission \<Rightarrow> bool" where
  "drained this = (this_eventQueue this = [] \<and> this_batchCount this = 0)"

definition drains :: "input \<Rightarrow> Transmission \<Rightarrow> bool" where
  "drains i this =
     (case i of
        BatchDone k e \<Rightarrow>
          k < length (inflight this) \<and> this_eventQueue this = [] \<and> this_batchCount this = 1
      | _ \<Rightarrow> False)"

definition registers :: "input \<Rightarrow> Transmission \<Rightarrow> bool" where
  "registers i this = (case i of Flush \<Rightarrow> \<not> drained this | _ \<Rightarrow> False)"

definition counted :: "Transmission \<Rightarrow> bool" where
  "counted this = (this_batchCount this = int (length (inflight this)))"

definition waiters_ok :: "Transmission \<Rightarrow> bool" where
  "waiters_ok this =
     (distinct (resolved this)
      \<and> (\<forall>p \<in> set (resolved this). p < nextId this)
      \<and> (case this_flushCallback this of
            Some p \<Rightarrow> p < nextId this \<and> p \<notin> set (resolved this)
          | None \<Rightarrow> True))"

definition lost :: "nat \<Rightarrow> Transmission \<Rightarrow> bool" where
  "lost p this =
     (p < nextId this \<and> p \<notin> set (resolved this) \<and> this_flushCallback this \<noteq> Some p)"

definition afterSend :: "nat \<Rightarrow> env \<Rightarrow> Transmission \<Rightarrow> Transmission" where
  "afterSend k e this =
     this\<lparr>responses := responses this @ fst (processBatch e this (inflight this ! k)),
          requests := requests this @ snd (processBatch e this (inflight this ! k)),
          inflight := take k (inflight this) @ drop (Suc k) (inflight this)\<rparr>"


section \<open>Example inputs\<close>

text \<open>
  A serializer that throws on the payload \<open>JObj 0\<close> (standing for a circular object)
  and writes \<open>{}\<close> for every other event; events to one destination whose payload and
  metadata are numbered; surroundings whose server answers every POST after 5 ms with
  status 200 and the given array.
\<close>

definition example_stringify :: "(string \<times> jsval) list \<Rightarrow> jserror + string" where
  "example_stringify json =
     (if map_of json ''data'' = Some (JObj 0)
      then Inl (TypeError ''Converting circular structure to JSON'')
      else Inr ''{}'')"

definition example_event :: "nat \<Rightarrow> ValidatedEvent" where
  "example_event n =
     \<lparr>timestamp = JObj 7, apiHost = ''http://h:9999'', postData = JObj n,
      writeKey = ''k'', dataset = ''d'', sampleRate = Some 1,
      metadata = JNum (of_nat n), encodeError = None\<rparr>"


definition example_env :: "resp list \<Rightarrow> env" where
  "example_env rs =
     \<lparr>JSON_stringify = example_stringify,
      URL_href = (\<lambda>path base. base @ path),
      fetch = (\<lambda>req. (5, Response True 200 (Inr rs)))\<rparr>"

definition example_options :: options where
  "example_options =
     \<lparr>opt_batchSizeTrigger = None, opt_batchTimeTrigger = None,
      opt_maxConcurrentBatches = None, opt_pendingWorkCapacity = None,
      opt_timeout = None, opt_userAgentAddition = None\<rparr>"

text \<open>A transmission with the default options that holds one event and has armed its timer.\<close>

definition example_waiting :: Transmission where
  "example_waiting =
     sendPresampledEvent (example_event 1) (Transmission_constructor example_options)"

section \<open>Lemmas\<close>

subsection \<open>The response queue\<close>

lemma concatWithMaxLimit_take: "concatWithMaxLimit q r L = take L (q @ r)"
  by (simp add: concatWithMaxLimit_def Let_def)

subsection \<open>Encoding and the POST of a partition\<close>


















subsection \<open>The machine: fields kept by the operations, invariants of a run\<close>

lemmas machine_defs = run_def sendPresampledEvent_def sendEvent_def sendBatch_def
  ensureSendTimeout_def clearSendTimeout_def finishBatch_def flush_def timerFired_def
  batchDone_def droppedCallback_def Transmission_constructor_def Let_def
  batchSizeTrigger_def batchTimeTrigger_def maxConcurrentBatches_def pendingWorkCapacity_def
  deadlineTimeoutMs_def example_waiting_def

lemma sendBatch_conserves:
  "concat (inflight (sendBatch this)) @ this_eventQueue (sendBatch this)
     = concat (inflight this) @ this_eventQueue this"
  by (simp add: sendBatch_def clearSendTimeout_def Let_def split: option.splits)

lemma ensureSendTimeout_conserves:
  "concat (inflight (ensureSendTimeout this)) @ this_eventQueue (ensureSendTimeout this)
     = concat (inflight this) @ this_eventQueue this"
  by (simp add: ensureSendTimeout_def)

lemma sendBatch_responses: "responses (sendBatch this) = responses this"
  by (simp add: sendBatch_def clearSendTimeout_def Let_def split: option.splits)

lemma ensureSendTimeout_responses: "responses (ensureSendTimeout this) = responses this"
  by (simp add: ensureSendTimeout_def)

lemma sendBatch_fields:
  "this_flushCallback (sendBatch this) = this_flushCallback this"
  "resolved (sendBatch this) = resolved this"
  "nextId (sendBatch this) = nextId this"
  "this_batchCount (sendBatch this) =
     (if this_batchCount this = maxConcurrentBatches then this_batchCount this
      else this_batchCount this + 1)"
  "this_eventQueue (sendBatch this) =
     (if this_batchCount this = maxConcurrentBatches then this_eventQueue this
      else drop (nat (this_batchSizeTrigger this)) (this_eventQueue this))"
  "length (inflight (sendBatch this)) =
     (if this_batchCount this = maxConcurrentBatches then length (inflight this)
      else length (inflight this) + 1)"
  "this_batchSizeTrigger (sendBatch this) = this_batchSizeTrigger this"
  by (simp_all add: sendBatch_def clearSendTimeout_def Let_def split: option.splits)

lemma ensureSendTimeout_fields:
  "this_flushCallback (ensureSendTimeout this) = this_flushCallback this"
  "resolved (ensureSendTimeout this) = resolved this"
  "nextId (ensureSendTimeout this) =
     (if this_sendTimeoutId this = None then Suc (nextId this) else nextId this)"
  "this_batchCount (ensureSendTimeout this) = this_batchCount this"
  "this_eventQueue (ensureSendTimeout this) = this_eventQueue this"
  "inflight (ensureSendTimeout this) = inflight this"
  "this_batchSizeTrigger (ensureSendTimeout this) = this_batchSizeTrigger this"
  by (simp_all add: ensureSendTimeout_def)

lemma droppedCallback_fields:
  "this_flushCallback (droppedCallback ev reason this) = this_flushCallback this"
  "resolved (droppedCallback ev reason this) = resolved this"
  "nextId (droppedCallback ev reason this) = nextId this"
  "this_batchCount (droppedCallback ev reason this) = this_batchCount this"
  "this_eventQueue (droppedCallback ev reason this) = this_eventQueue this"
  "inflight (droppedCallback ev reason this) = inflight this"
  "this_batchSizeTrigger (droppedCallback ev reason this) = this_batchSizeTrigger this"
  by (simp_all add: droppedCallback_def)

lemma sendPresampledEvent_fields:
  "this_flushCallback (sendPresampledEvent ev this) = this_flushCallback this"
  "resolved (sendPresampledEvent ev this) = resolved this"
  "nextId this \<le> nextId (sendPresampledEvent ev this)"
  "this_batchSizeTrigger (sendPresampledEvent ev this) = this_batchSizeTrigger this"
  by (simp_all add: sendPresampledEvent_def Let_def sendBatch_fields ensureSendTimeout_fields
      droppedCallback_fields)

lemma sendPresampledEvent_counted:
  "counted this \<Longrightarrow> counted (sendPresampledEvent ev this)"
  by (simp add: counted_def sendPresampledEvent_def Let_def sendBatch_fields
      ensureSendTimeout_fields droppedCallback_fields)

lemma sendPresampledEvent_not_drained:
  "counted this \<Longrightarrow> \<not> drained this \<Longrightarrow> \<not> drained (sendPresampledEvent ev this)"
  by (auto simp add: counted_def drained_def sendPresampledEvent_def Let_def sendBatch_fields
      ensureSendTimeout_fields droppedCallback_fields maxConcurrentBatches_def)

lemma timerFired_fields:
  "this_flushCallback (timerFired t this) = this_flushCallback this"
  "resolved (timerFired t this) = resolved this"
  "nextId (timerFired t this) = nextId this"
  "this_batchSizeTrigger (timerFired t this) = this_batchSizeTrigger this"
  by (simp_all add: timerFired_def sendBatch_fields)

lemma timerFired_counted: "counted this \<Longrightarrow> counted (timerFired t this)"
  by (simp add: counted_def timerFired_def sendBatch_fields)

lemma timerFired_not_drained:
  "counted this \<Longrightarrow> \<not> drained this \<Longrightarrow> \<not> drained (timerFired t this)"
  by (auto simp add: counted_def drained_def timerFired_def sendBatch_fields
      maxConcurrentBatches_def)

lemma finishBatch_resolved:
  "resolved (finishBatch this) =
     (case this_flushCallback this of
        Some p \<Rightarrow> if this_eventQueue this = [] \<and> this_batchCount this = 1
                  then resolved this @ [p] else resolved this
      | None \<Rightarrow> resolved this)"
  by (simp add: finishBatch_def Let_def sendBatch_fields ensureSendTimeout_fields
      split: option.splits)

lemma finishBatch_flushCallback:
  "this_flushCallback (finishBatch this) =
     (if this_eventQueue this = [] \<and> this_batchCount this = 1 then None
      else this_flushCallback this)"
  by (simp add: finishBatch_def Let_def sendBatch_fields ensureSendTimeout_fields
      split: option.splits)

lemma finishBatch_nextId: "nextId this \<le> nextId (finishBatch this)"
  by (simp add: finishBatch_def Let_def sendBatch_fields ensureSendTimeout_fields
      split: option.splits)


lemma finishBatch_counted:
  "this_batchCount this = int (length (inflight this)) + 1 \<Longrightarrow> counted (finishBatch this)"
  by (simp add: counted_def finishBatch_def Let_def sendBatch_fields ensureSendTimeout_fields
      split: option.splits)

lemma finishBatch_drained:
  "1 \<le> this_batchCount this \<Longrightarrow>
   drained (finishBatch this) \<longleftrightarrow> this_eventQueue this = [] \<and> this_batchCount this = 1"
  by (auto simp add: drained_def finishBatch_def Let_def sendBatch_fields
      ensureSendTimeout_fields maxConcurrentBatches_def split: option.splits)

lemma batchDone_finishBatch:
  "batchDone k e this =
     (if k < length (inflight this) then finishBatch (afterSend k e this) else this)"
  by (simp add: batchDone_def afterSend_def split: prod.splits)

lemma afterSend_fields:
  "this_flushCallback (afterSend k e this) = this_flushCallback this"
  "resolved (afterSend k e this) = resolved this"
  "nextId (afterSend k e this) = nextId this"
  "this_batchCount (afterSend k e this) = this_batchCount this"
  "this_eventQueue (afterSend k e this) = this_eventQueue this"
  "this_batchSizeTrigger (afterSend k e this) = this_batchSizeTrigger this"
  by (simp_all add: afterSend_def)

lemma afterSend_inflight:
  "k < length (inflight this) \<Longrightarrow>
   int (length (inflight (afterSend k e this))) + 1 = int (length (inflight this))"
  by (simp add: afterSend_def)

lemma batchDone_resolved:
  "resolved (batchDone k e this) =
     (case this_flushCallback this of
        Some p \<Rightarrow> if k < length (inflight this) \<and> this_eventQueue this = []
                     \<and> this_batchCount this = 1
                  then resolved this @ [p] else resolved this
      | None \<Rightarrow> resolved this)"
  by (auto simp add: batchDone_finishBatch finishBatch_resolved afterSend_fields
      split: option.splits)

lemma batchDone_flushCallback:
  "this_flushCallback (batchDone k e this) =
     (if k < length (inflight this) \<and> this_eventQueue this = [] \<and> this_batchCount this = 1
      then None else this_flushCallback this)"
  by (auto simp add: batchDone_finishBatch finishBatch_flushCallback afterSend_fields)

lemma batchDone_nextId: "nextId this \<le> nextId (batchDone k e this)"
  using finishBatch_nextId [of "afterSend k e this"]
  by (simp add: batchDone_finishBatch afterSend_fields)

lemma batchDone_counted: "counted this \<Longrightarrow> counted (batchDone k e this)"
proof (cases "k < length (inflight this)")
  case True
  assume c: "counted this"
  have "counted (finishBatch (afterSend k e this))"
    by (rule finishBatch_counted)
      (use True c afterSend_inflight [OF True, of e] in \<open>simp add: counted_def afterSend_fields\<close>)
  then show ?thesis using True by (simp add: batchDone_finishBatch)
next
  case False
  assume "counted this"
  with False show ?thesis by (simp add: batchDone_finishBatch)
qed

lemma batchDone_drained:
  assumes "counted this" "\<not> drained this"
  shows "drained (batchDone k e this) \<longleftrightarrow>
     k < length (inflight this) \<and> this_eventQueue this = [] \<and> this_batchCount this = 1"
proof (cases "k < length (inflight this)")
  case True
  have "1 \<le> this_batchCount (afterSend k e this)"
    using True assms(1) by (simp add: counted_def afterSend_fields)
  from finishBatch_drained [OF this] show ?thesis using True
    by (simp add: batchDone_finishBatch afterSend_fields)
next
  case False
  then show ?thesis using assms(2) by (simp add: batchDone_finishBatch)
qed

lemma flush_fields:
  "resolved (snd (flush this)) = resolved this"
  "this_flushCallback (snd (flush this)) =
     (if drained this then this_flushCallback this else Some (nextId this))"
  "nextId (snd (flush this)) = (if drained this then nextId this else Suc (nextId this))"
  "this_eventQueue (snd (flush this)) = this_eventQueue this"
  "this_batchCount (snd (flush this)) = this_batchCount this"
  "inflight (snd (flush this)) = inflight this"
  by (simp_all add: flush_def drained_def)

lemma sendEvent_fields:
  "this_flushCallback (sendEvent r ev this) = this_flushCallback this"
  "resolved (sendEvent r ev this) = resolved this"
  "nextId this \<le> nextId (sendEvent r ev this)"
  by (simp_all add: sendEvent_def sendPresampledEvent_fields droppedCallback_fields)

lemma sendEvent_counted: "counted this \<Longrightarrow> counted (sendEvent r ev this)"
  by (simp add: sendEvent_def sendPresampledEvent_counted)
    (simp add: counted_def droppedCallback_fields)

lemma sendEvent_not_drained:
  "counted this \<Longrightarrow> \<not> drained this \<Longrightarrow> \<not> drained (sendEvent r ev this)"
  by (simp add: sendEvent_def sendPresampledEvent_not_drained)
    (simp add: drained_def droppedCallback_fields)

lemma step_resolved:
  "resolved (step i this) =
     (case this_flushCallback this of
        Some p \<Rightarrow> if drains i this then resolved this @ [p] else resolved this
      | None \<Rightarrow> resolved this)"
  by (cases i)
    (simp_all add: drains_def sendEvent_fields sendPresampledEvent_fields flush_fields
      timerFired_fields batchDone_resolved split: option.splits)

lemma step_flushCallback:
  "this_flushCallback (step i this) =
     (if registers i this then Some (nextId this)
      else if drains i this then None else this_flushCallback this)"
  by (cases i)
    (simp_all add: drains_def registers_def sendEvent_fields sendPresampledEvent_fields
      flush_fields timerFired_fields batchDone_flushCallback)

lemma step_nextId: "nextId this \<le> nextId (step i this)"
  by (cases i)
    (simp_all add: sendEvent_fields sendPresampledEvent_fields flush_fields
      timerFired_fields batchDone_nextId)

lemma step_nextId_registers: "registers i this \<Longrightarrow> nextId (step i this) = Suc (nextId this)"
  by (cases i) (simp_all add: registers_def flush_fields)

lemma step_counted: "counted this \<Longrightarrow> counted (step i this)"
  by (cases i)
    (simp_all add: sendEvent_counted sendPresampledEvent_counted timerFired_counted
      batchDone_counted, simp add: counted_def flush_fields)

lemma step_drained:
  "counted this \<Longrightarrow> \<not> drained this \<Longrightarrow> drained (step i this) \<longleftrightarrow> drains i this"
  by (cases i)
    (simp_all add: drains_def sendEvent_not_drained sendPresampledEvent_not_drained
      timerFired_not_drained batchDone_drained, simp add: drained_def flush_fields)

lemma step_waiters_ok: "waiters_ok this \<Longrightarrow> waiters_ok (step i this)"
proof -
  assume w: "waiters_ok this"
  have n: "nextId this \<le> nextId (step i this)" by (rule step_nextId)
  show ?thesis
  proof (cases "registers i this")
    case True
    then have nd: "\<not> drains i this" by (cases i) (simp_all add: registers_def drains_def)
    from True have "nextId (step i this) = Suc (nextId this)" by (rule step_nextId_registers)
    then show ?thesis using w True nd
      by (auto simp add: waiters_ok_def step_resolved step_flushCallback split: option.splits)
  next
    case False
    then show ?thesis using w n
      by (auto simp add: waiters_ok_def step_resolved step_flushCallback split: option.splits)
  qed
qed

lemma step_lost: "waiters_ok this \<Longrightarrow> lost p this \<Longrightarrow> lost p (step i this)"
  using step_nextId [of this i]
  by (cases "registers i this")
    (auto simp add: lost_def waiters_ok_def step_resolved step_flushCallback
      step_nextId_registers split: option.splits)

lemma run_Nil: "run [] this = this"
  by (simp add: run_def)

lemma run_Cons: "run (i # inputs) this = run inputs (step i this)"
  by (simp add: run_def)

lemma run_waiters_ok: "waiters_ok this \<Longrightarrow> waiters_ok (run inputs this)"
  by (induction inputs arbitrary: this) (simp_all add: run_Nil run_Cons step_waiters_ok)

lemma run_counted: "counted this \<Longrightarrow> counted (run inputs this)"
  by (induction inputs arbitrary: this) (simp_all add: run_Nil run_Cons step_counted)

lemma run_lost: "waiters_ok this \<Longrightarrow> lost p this \<Longrightarrow> lost p (run inputs this)"
  by (induction inputs arbitrary: this)
    (simp_all add: run_Nil run_Cons step_waiters_ok step_lost)

lemma constructor_inv:
  "waiters_ok (Transmission_constructor opts)" "counted (Transmission_constructor opts)"
  by (simp_all add: waiters_ok_def counted_def Transmission_constructor_def Let_def
      split: option.splits)

lemma finishBatch_batchCount:
  "this_batchCount this \<le> maxConcurrentBatches \<Longrightarrow>
   this_batchCount (finishBatch this) \<le> maxConcurrentBatches"
  by (simp add: finishBatch_def Let_def sendBatch_fields ensureSendTimeout_fields
      maxConcurrentBatches_def split: option.splits)

lemma step_batchCount:
  "this_batchCount this \<le> maxConcurrentBatches \<Longrightarrow>
   this_batchCount (step i this) \<le> maxConcurrentBatches"
proof (cases i)
  case (BatchDone k e)
  assume "this_batchCount this \<le> maxConcurrentBatches"
  then have "this_batchCount (afterSend k e this) \<le> maxConcurrentBatches"
    by (simp add: afterSend_fields)
  from finishBatch_batchCount [OF this] show ?thesis
    using BatchDone \<open>this_batchCount this \<le> maxConcurrentBatches\<close>
    by (simp add: batchDone_finishBatch)
qed (simp_all add: sendEvent_def sendPresampledEvent_def timerFired_def Let_def
    sendBatch_fields ensureSendTimeout_fields droppedCallback_fields flush_fields
    maxConcurrentBatches_def)

text \<open>What the gate does enforce: the count never exceeds the constant of the module.\<close>

lemma batchCount_le_constant:
  "this_batchCount this \<le> maxConcurrentBatches \<Longrightarrow>
   this_batchCount (run inputs this) \<le> maxConcurrentBatches"
  by (induction inputs arbitrary: this) (simp_all add: run_Nil run_Cons step_batchCount)















section \<open>The properties\<close>

text \<open>
  C1. The code departs from the claim: with \<open>maxConcurrentBatches\<close> configured as 1
  and a size trigger of 1, two events sent before any batch has finished leave two
  batches in flight and the count at 2. \<open>sendBatch\<close> compares the count with the
  constant 10 of the module, not with the configured value the constructor stored.
\<close>

theorem batchCount_exceeds_configured:
  "this_maxConcurrentBatches
     (run [SendPresampledEvent (example_event 1), SendPresampledEvent (example_event 2)]
        (Transmission_constructor
           (example_options\<lparr>opt_maxConcurrentBatches := Some 1,
                            opt_batchSizeTrigger := Some 1\<rparr>))) = 1
   \<and> this_batchCount
     (run [SendPresampledEvent (example_event 1), SendPresampledEvent (example_event 2)]
        (Transmission_constructor
           (example_options\<lparr>opt_maxConcurrentBatches := Some 1,
                            opt_batchSizeTrigger := Some 1\<rparr>))) = 2
   \<and> inflight
     (run [SendPresampledEvent (example_event 1), SendPresampledEvent (example_event 2)]
        (Transmission_constructor
           (example_options\<lparr>opt_maxConcurrentBatches := Some 1,
                            opt_batchSizeTrigger := Some 1\<rparr>)))
     = [[example_event 1], [example_event 2]]"
  by (simp add: machine_defs example_options_def)




text \<open>
  C3 as stated fails: an event whose sampleRate is 1 is encoded with the key
  \<open>samplerate\<close>, since \<open>toJSON\<close> tests the sampleRate for truthiness only.
\<close>

theorem toJSON_samplerate_one_counterexample:
  "map_of (toJSON \<lparr>timestamp = JObj 0, apiHost = ''http://h:9999'', postData = JObj 1,
                    writeKey = ''k'', dataset = ''d'', sampleRate = Some 1,
                    metadata = JUndefined, encodeError = None\<rparr>) ''samplerate''
   = Some (JNum 1)"
  by (simp add: toJSON_def)

text \<open>
  C3, amended. The encoded object has the key \<open>time\<close> carrying the timestamp when the
  timestamp is truthy (a Date always is), has the key \<open>samplerate\<close> carrying the
  sampleRate exactly when the sampleRate is a number other than 0, so that it is omitted
  when the sampleRate is absent and present when it is 1, and omits the key \<open>data\<close>
  when postData is absent.
\<close>

theorem toJSON_keys:
  "(truthy (timestamp ev) \<longrightarrow> map_of (toJSON ev) ''time'' = Some (timestamp ev))
   \<and> map_of (toJSON ev) ''samplerate'' =
       (case sampleRate ev of None \<Rightarrow> None
        | Some s \<Rightarrow> if s = 0 then None else Some (JNum s))
   \<and> (sampleRate ev = None \<longrightarrow> ''samplerate'' \<notin> fst ` set (toJSON ev))
   \<and> (postData ev = JUndefined \<longrightarrow> ''data'' \<notin> fst ` set (toJSON ev))"
  by (auto simp add: toJSON_def Let_def split: option.splits)

theorem toJSON_keys_witness:
  "truthy (JObj 0)
   \<and> toJSON \<lparr>timestamp = JObj 0, apiHost = ''http://h:9999'', postData = JUndefined,
              writeKey = ''k'', dataset = ''d'', sampleRate = None,
              metadata = JUndefined, encodeError = None\<rparr> = [(''time'', JObj 0)]"
  using toJSON_keys [of "\<lparr>timestamp = JObj 0, apiHost = ''http://h:9999'',
              postData = JUndefined, writeKey = ''k'', dataset = ''d'', sampleRate = None,
              metadata = JUndefined, encodeError = None\<rparr>"]
  by (simp add: toJSON_def)






text \<open>
  C6. When the queue holds at least \<open>pendingWorkCapacity\<close> events,
  \<open>sendPresampledEvent\<close> passes one outcome to the response callback, with the
  metadata of the event and the error "queue overflow", and changes nothing else: the
  queue, the timer and the count stay as they are. Below the capacity no outcome is
  passed and the event is appended to the queue; the size trigger may then cut a batch
  at once, so that the events in flight and in the queue are those before, followed by
  the event.
\<close>

theorem sendPresampledEvent_overflow:
  "(this_pendingWorkCapacity this \<le> int (length (this_eventQueue this)) \<longrightarrow>
      sendPresampledEvent ev this =
        this\<lparr>responses := responses this @
          [[\<lparr>out_status_code = JUndefined, out_duration = None,
             out_metadata = metadata ev, out_error = Inl (Error ''queue overflow'')\<rparr>]]\<rparr>
      \<and> this_eventQueue (sendPresampledEvent ev this) = this_eventQueue this
      \<and> this_sendTimeoutId (sendPresampledEvent ev this) = this_sendTimeoutId this
      \<and> timers (sendPresampledEvent ev this) = timers this
      \<and> this_batchCount (sendPresampledEvent ev this) = this_batchCount this
      \<and> inflight (sendPresampledEvent ev this) = inflight this)
   \<and> (int (length (this_eventQueue this)) < this_pendingWorkCapacity this \<longrightarrow>
      responses (sendPresampledEvent ev this) = responses this
      \<and> sendPresampledEvent ev this =
          (if this_batchSizeTrigger this \<le> int (length (this_eventQueue this)) + 1
           then sendBatch (this\<lparr>this_eventQueue := this_eventQueue this @ [ev]\<rparr>)
           else ensureSendTimeout (this\<lparr>this_eventQueue := this_eventQueue this @ [ev]\<rparr>))
      \<and> this_eventQueue (sendPresampledEvent ev this) =
          (if this_batchSizeTrigger this \<le> int (length (this_eventQueue this)) + 1
              \<and> this_batchCount this \<noteq> maxConcurrentBatches
           then drop (nat (this_batchSizeTrigger this)) (this_eventQueue this @ [ev])
           else this_eventQueue this @ [ev])
      \<and> concat (inflight (sendPresampledEvent ev this))
            @ this_eventQueue (sendPresampledEvent ev this)
          = concat (inflight this) @ this_eventQueue this @ [ev])"
proof -
  have over: "sendPresampledEvent ev this =
        this\<lparr>responses := responses this @
          [[\<lparr>out_status_code = JUndefined, out_duration = None,
             out_metadata = metadata ev, out_error = Inl (Error ''queue overflow'')\<rparr>]]\<rparr>"
    if "this_pendingWorkCapacity this \<le> int (length (this_eventQueue this))"
    using that by (simp add: sendPresampledEvent_def droppedCallback_def)
  have under: "sendPresampledEvent ev this =
          (if this_batchSizeTrigger this \<le> int (length (this_eventQueue this)) + 1
           then sendBatch (this\<lparr>this_eventQueue := this_eventQueue this @ [ev]\<rparr>)
           else ensureSendTimeout (this\<lparr>this_eventQueue := this_eventQueue this @ [ev]\<rparr>))"
    if "int (length (this_eventQueue this)) < this_pendingWorkCapacity this"
    using that by (simp add: sendPresampledEvent_def Let_def)
  have q: "this_eventQueue (sendPresampledEvent ev this) =
          (if this_batchSizeTrigger this \<le> int (length (this_eventQueue this)) + 1
              \<and> this_batchCount this \<noteq> maxConcurrentBatches
           then drop (nat (this_batchSizeTrigger this)) (this_eventQueue this @ [ev])
           else this_eventQueue this @ [ev])"
    if "int (length (this_eventQueue this)) < this_pendingWorkCapacity this"
    unfolding under [OF that]
    by (simp add: sendBatch_def ensureSendTimeout_def clearSendTimeout_def Let_def
        split: option.splits)
  have c: "concat (inflight (sendPresampledEvent ev this))
            @ this_eventQueue (sendPresampledEvent ev this)
          = concat (inflight this) @ this_eventQueue this @ [ev]"
    if "int (length (this_eventQueue this)) < this_pendingWorkCapacity this"
    unfolding under [OF that]
    by (simp add: sendBatch_conserves ensureSendTimeout_conserves)
  have r: "responses (sendPresampledEvent ev this) = responses this"
    if "int (length (this_eventQueue this)) < this_pendingWorkCapacity this"
    unfolding under [OF that]
    by (simp add: sendBatch_responses ensureSendTimeout_responses)
  show ?thesis
    using over under q c r by simp
qed

theorem sendPresampledEvent_overflow_witness:
  "this_pendingWorkCapacity
      ((Transmission_constructor (example_options\<lparr>opt_pendingWorkCapacity := Some 1\<rparr>))
         \<lparr>this_eventQueue := [example_event 1]\<rparr>)
     \<le> int (length (this_eventQueue
      ((Transmission_constructor (example_options\<lparr>opt_pendingWorkCapacity := Some 1\<rparr>))
         \<lparr>this_eventQueue := [example_event 1]\<rparr>)))
   \<and> responses (sendPresampledEvent (example_event 2)
      ((Transmission_constructor (example_options\<lparr>opt_pendingWorkCapacity := Some 1\<rparr>))
         \<lparr>this_eventQueue := [example_event 1]\<rparr>))
     = [[\<lparr>out_status_code = JUndefined, out_duration = None, out_metadata = JNum 2,
          out_error = Inl (Error ''queue overflow'')\<rparr>]]
   \<and> this_eventQueue (sendPresampledEvent (example_event 2)
      ((Transmission_constructor (example_options\<lparr>opt_pendingWorkCapacity := Some 1\<rparr>))
         \<lparr>this_eventQueue := [example_event 1]\<rparr>)) = [example_event 1]
   \<and> int (length (this_eventQueue (Transmission_constructor example_options)))
       < this_pendingWorkCapacity (Transmission_constructor example_options)
   \<and> this_eventQueue (sendPresampledEvent (example_event 2)
        (Transmission_constructor example_options)) = [example_event 2]
   \<and> responses (sendPresampledEvent (example_event 2)
        (Transmission_constructor example_options)) = []"
  using sendPresampledEvent_overflow
      [of "(Transmission_constructor (example_options\<lparr>opt_pendingWorkCapacity := Some 1\<rparr>))
         \<lparr>this_eventQueue := [example_event 1]\<rparr>" "example_event 2"]
    sendPresampledEvent_overflow [of "Transmission_constructor example_options" "example_event 2"]
  by (simp add: machine_defs example_options_def example_event_def)



text \<open>
  C8, amended. \<open>flush\<close> gives an already resolved promise exactly when the queue is
  empty and the count is 0; otherwise it gives a pending promise and stores it as the
  only waiter, in place of a waiter stored before. A step resolves a promise exactly
  when it is a batch completion that leaves the transmission drained while a waiter is
  stored: it resolves that waiter and clears the field; a transmission that is not
  drained becomes drained by such a completion only. Along every run from the
  constructor no promise is resolved twice, and a waiter that a later \<open>flush\<close>
  replaced is never resolved.
\<close>

theorem flush_waiter:
  "(fst (flush this) = Resolved \<longleftrightarrow> this_eventQueue this = [] \<and> this_batchCount this = 0)
   \<and> (\<not> drained this \<longrightarrow>
        flush this = (Pending (nextId this),
          this\<lparr>this_flushCallback := Some (nextId this), nextId := Suc (nextId this)\<rparr>))
   \<and> resolved (step i this) =
       (case this_flushCallback this of
          Some p \<Rightarrow> if drains i this then resolved this @ [p] else resolved this
        | None \<Rightarrow> resolved this)
   \<and> this_flushCallback (step i this) =
       (if registers i this then Some (nextId this)
        else if drains i this then None else this_flushCallback this)
   \<and> (counted this \<and> \<not> drained this \<longrightarrow> (drained (step i this) \<longleftrightarrow> drains i this))
   \<and> counted (run inputs (Transmission_constructor opts))
   \<and> distinct (resolved (run inputs (Transmission_constructor opts)))
   \<and> (this = run inputs (Transmission_constructor opts) \<and> this_flushCallback this = Some p
        \<and> \<not> drained this
      \<longrightarrow> p \<notin> set (resolved (run inputs' (step Flush this))))"
proof -
  have a: "fst (flush this) = Resolved \<longleftrightarrow> this_eventQueue this = [] \<and> this_batchCount this = 0"
    by (simp add: flush_def)
  have b: "flush this = (Pending (nextId this),
          this\<lparr>this_flushCallback := Some (nextId this), nextId := Suc (nextId this)\<rparr>)"
    if "\<not> drained this"
    using that by (simp add: flush_def drained_def)
  have w: "waiters_ok (run inputs (Transmission_constructor opts))"
    by (rule run_waiters_ok) (rule constructor_inv)
  have c: "counted (run inputs (Transmission_constructor opts))"
    by (rule run_counted) (rule constructor_inv)
  have d: "distinct (resolved (run inputs (Transmission_constructor opts)))"
    using w by (simp add: waiters_ok_def)
  have l: "p \<notin> set (resolved (run inputs' (step Flush this)))"
    if t: "this = run inputs (Transmission_constructor opts)"
      and p: "this_flushCallback this = Some p" and nd: "\<not> drained this"
  proof -
    have wt: "waiters_ok this" using w t by simp
    then have "p < nextId this" "p \<notin> set (resolved this)"
      using p by (simp_all add: waiters_ok_def)
    then have "lost p (step Flush this)"
      using nd by (simp add: lost_def flush_fields)
    moreover have "waiters_ok (step Flush this)" using wt by (rule step_waiters_ok)
    ultimately have "lost p (run inputs' (step Flush this))" by (rule run_lost [rotated])
    then show ?thesis by (simp add: lost_def)
  qed
  have b': "\<not> drained this \<longrightarrow>
        flush this = (Pending (nextId this),
          this\<lparr>this_flushCallback := Some (nextId this), nextId := Suc (nextId this)\<rparr>)"
    using b by blast
  have e: "counted this \<and> \<not> drained this \<longrightarrow> (drained (step i this) \<longleftrightarrow> drains i this)"
    using step_drained by blast
  have l': "this = run inputs (Transmission_constructor opts) \<and> this_flushCallback this = Some p
        \<and> \<not> drained this
      \<longrightarrow> p \<notin> set (resolved (run inputs' (step Flush this)))"
    using l by blast
  show ?thesis
    apply (intro conjI)
           apply (rule a)
          apply (rule b')
         apply (rule step_resolved)
        apply (rule step_flushCallback)
       apply (rule e)
      apply (rule c)
     apply (rule d)
    apply (rule l')
    done
qed

text \<open>
  C8 as stated fails: \<open>flush\<close> called twice on a transmission that holds one event
  hands out the pending promises 2 and 3; the timer then fires and the batch finishes,
  which leaves the queue empty and the count 0, and only promise 3 is resolved.
\<close>

theorem flush_waiter_counterexample:
  "fst (flush example_waiting) = Pending 2
   \<and> fst (flush (step Flush example_waiting)) = Pending 3
   \<and> this_eventQueue
        (run [Flush, Flush, TimerFired 1,
              BatchDone 0 (example_env [\<lparr>resp_status = JNum 202, resp_err = JNull\<rparr>])]
           example_waiting) = []
   \<and> this_batchCount
        (run [Flush, Flush, TimerFired 1,
              BatchDone 0 (example_env [\<lparr>resp_status = JNum 202, resp_err = JNull\<rparr>])]
           example_waiting) = 0
   \<and> resolved
        (run [Flush, Flush, TimerFired 1,
              BatchDone 0 (example_env [\<lparr>resp_status = JNum 202, resp_err = JNull\<rparr>])]
           example_waiting) = [3]"
  by (simp add: machine_defs example_options_def split: prod.splits)

theorem flush_waiter_witness:
  "\<not> drained (step Flush example_waiting)
   \<and> counted (step Flush example_waiting)
   \<and> step Flush example_waiting =
       run [SendPresampledEvent (example_event 1), Flush] (Transmission_constructor example_options)
   \<and> this_flushCallback (step Flush example_waiting) = Some 2
   \<and> drains (BatchDone 0 (example_env [])) (step (TimerFired 1) (step Flush example_waiting))
   \<and> resolved (step (BatchDone 0 (example_env []))
        (step (TimerFired 1) (step Flush example_waiting))) = [2]
   \<and> 2 \<notin> set (resolved (run [TimerFired 1, BatchDone 0 (example_env [])]
                 (step Flush (step Flush example_waiting))))"
  using flush_waiter [where this = "step Flush example_waiting" and i = "TimerFired 1"
      and inputs = "[SendPresampledEvent (example_event 1), Flush]"
      and opts = example_options and p = 2
      and inputs' = "[TimerFired 1, BatchDone 0 (example_env [])]"]
    flush_waiter [where this = "step (TimerFired 1) (step Flush example_waiting)"
      and i = "BatchDone 0 (example_env [])" and inputs = "[]" and opts = example_options
      and p = 0 and inputs' = "[]"]
  by (simp add: machine_defs example_options_def drained_def counted_def drains_def
      split: prod.splits)



text \<open>
  C10. The default response handler returns \<open>min L (|q| + |r|)\<close> elements when
  \<open>|q| < L\<close> and \<open>L\<close> elements when \<open>|q| \<ge> L\<close>; the result is the first L
  elements of q followed by r, that is, the elements of q (all of them when
  \<open>|q| \<le> L\<close>) followed by a prefix of r, so the newest responses are the ones dropped,
  and the response queue of Libhoney never holds more than maxResponseQueueSize
  elements.
\<close>

theorem concatWithMaxLimit_bounded:
  "length (concatWithMaxLimit q r L) = (if length q < L then min L (length q + length r) else L)
   \<and> concatWithMaxLimit q r L = take L (q @ r)
   \<and> concatWithMaxLimit q r L = take L q @ take (L - length q) r
   \<and> (length q \<le> L \<longrightarrow> concatWithMaxLimit q r L = q @ take (L - length q) r)
   \<and> length (responseQueue (Libhoney_responseCallback r h)) \<le> maxResponseQueueSize h"
  by (auto simp add: concatWithMaxLimit_take Libhoney_responseCallback_def Let_def)

theorem concatWithMaxLimit_bounded_witness:
  "length [1, 2, 3 :: nat] \<le> 4
   \<and> concatWithMaxLimit [1, 2, 3 :: nat] [4, 5] 4 = [1, 2, 3, 4]
   \<and> length (concatWithMaxLimit [1, 2, 3 :: nat] [4, 5] 4) = 4
   \<and> concatWithMaxLimit [1, 2, 3 :: nat] [4, 5] 2 = [1, 2]
   \<and> concatWithMaxLimit [1, 2, 3 :: nat] [4, 5] 9 = [1, 2, 3, 4, 5]"
  using concatWithMaxLimit_bounded [of "[1, 2, 3 :: nat]" "[4, 5]" 4]
    concatWithMaxLimit_bounded [of "[1, 2, 3 :: nat]" "[4, 5]" 2]
    concatWithMaxLimit_bounded [of "[1, 2, 3 :: nat]" "[4, 5]" 9]
  by (simp add: concatWithMaxLimit_def)

end
